theory Spec2Isabelle
  imports Main "HOL-Library.Signed_Division"
begin

section \<open>The socket layer of \<open>mt4zmq_winsock_fixed.cpp\<close>\<close>

text \<open>
  The development embeds the Winsock implementation of the MT4ZMQ library. A
  \<open>std::string\<close> is a \<^typ>\<open>string\<close> (a list of 8-bit characters, so a byte sequence), the
  registry \<open>std::map<int, ZMQSocket*>\<close> is a map from handles to socket objects, and every
  exported function takes the global state and returns the value the C function returns
  together with the state it leaves. The answers of the operating system during one call
  (what \<open>accept\<close>, \<open>send\<close>, \<open>select\<close>, \<open>recv\<close> and the others return) are read from a record
  \<open>world\<close>; \<open>zmq_send_message\<close> and \<open>zmq_recv_message\<close> also return the list of the calls
  they make on their sockets. Undefined behaviour of C++ (the overflow of the handle
  counter) is the result \<open>None\<close>.

  The model is sequential. The critical section \<open>g_cs\<close> is initialised by a successful
  \<open>zmq_init\<close>, just before \<open>g_initialized\<close> is set, and deleted by \<open>zmq_term\<close>, just before
  \<open>g_initialized\<close> is cleared, so it exists exactly in the states where \<open>g_initialized\<close>
  holds. \<open>zmq_send_message\<close>, \<open>zmq_recv_message\<close> and \<open>zmq_close\<close> enter it first; entering
  it in any other state is undefined. The lock itself is not represented: the definitions
  of these three functions give what runs inside the critical section, and describe the
  code in the states where \<open>g_initialized\<close> holds. The creation functions enter it only
  after their own initialisation has succeeded.
\<close>

subsection \<open>Strings\<close>

definition NUL :: char where
  "NUL = CHR 0x00"

text \<open>\<open>s.c_str()\<close> read as a C string: the bytes before the first NUL.\<close>

definition c_str :: "string \<Rightarrow> string" where
  "c_str s = takeWhile (\<lambda>c. c \<noteq> NUL) s"

text \<open>\<open>s.find(ch)\<close>: the index of the first occurrence, \<open>None\<close> for \<open>std::string::npos\<close>.\<close>

fun str_find :: "string \<Rightarrow> char \<Rightarrow> nat option" where
  "str_find [] ch = None"
| "str_find (c # cs) ch =
     (if c = ch then Some 0
      else (case str_find cs ch of None \<Rightarrow> None | Some i \<Rightarrow> Some (Suc i)))"

text \<open>\<open>s.substr(pos, n)\<close> and \<open>s.substr(pos)\<close>, for \<open>pos \<le> s.size()\<close> (beyond that the source
  throws; every call site below stays within the range).\<close>

definition substr :: "string \<Rightarrow> nat \<Rightarrow> nat \<Rightarrow> string" where
  "substr s pos n = take n (drop pos s)"

definition substr_from :: "string \<Rightarrow> nat \<Rightarrow> string" where
  "substr_from s pos = drop pos s"

subsection \<open>Framing\<close>

text \<open>The frame built in \<open>zmq_send_message\<close>: \<open>topicStr + '\0' + msgStr\<close>.\<close>

definition fullMsg :: "string \<Rightarrow> string \<Rightarrow> string" where
  "fullMsg topicStr msgStr = topicStr @ [NUL] @ msgStr"

text \<open>
  The parse in \<open>zmq_recv_message\<close>: the bytes read are split at the first NUL; without one
  the call fails. Both halves are handed to the wide-character conversion through
  \<open>c_str()\<close>, so each reaches the caller up to its first NUL.
\<close>

definition parse_data :: "string \<Rightarrow> (string \<times> string) option" where
  "parse_data data =
     (case str_find data NUL of
        None \<Rightarrow> None
      | Some nullPos \<Rightarrow>
          (let topicStr = substr data 0 nullPos;
               msgStr = substr_from data (nullPos + 1)
           in Some (c_str topicStr, c_str msgStr)))"

subsection \<open>\<open>std::stoi\<close>\<close>

text \<open>
  \<open>ParseAddress\<close> reads the port with \<open>std::stoi\<close> of the C++ standard library: \<open>strtol\<close> in
  base 10 (leading white space, an optional sign, then the longest run of digits; what
  follows the digits is ignored), \<open>std::invalid_argument\<close> when there is no digit and
  \<open>std::out_of_range\<close> when the value does not fit an \<open>int\<close> (32 bits; \<open>long\<close> has 32 bits on
  Windows as well). Both exceptions are \<open>None\<close>.
\<close>

definition INT_MAX :: int where
  "INT_MAX = 2147483647"

definition INT_MIN :: int where
  "INT_MIN = - 2147483648"

definition isspace :: "char \<Rightarrow> bool" where
  "isspace c = (c \<in> set [CHR '' '', CHR 0x09, CHR 0x0A, CHR 0x0B, CHR 0x0C, CHR 0x0D])"

definition isdigit :: "char \<Rightarrow> bool" where
  "isdigit c = (48 \<le> (of_char c :: nat) \<and> (of_char c :: nat) \<le> 57)"

definition digit_val :: "char \<Rightarrow> int" where
  "digit_val c = int (of_char c) - 48"

definition decimal :: "string \<Rightarrow> int" where
  "decimal ds = foldl (\<lambda>acc c. 10 * acc + digit_val c) 0 ds"

definition stoi :: "string \<Rightarrow> int option" where
  "stoi str =
     (let s1 = dropWhile isspace str;
          neg = (s1 \<noteq> [] \<and> hd s1 = CHR ''-'');
          s2 = (if s1 \<noteq> [] \<and> (hd s1 = CHR ''-'' \<or> hd s1 = CHR ''+'') then tl s1 else s1);
          ds = takeWhile isdigit s2
      in if ds = [] then None
         else (let v = (if neg then - decimal ds else decimal ds)
               in if v < INT_MIN \<or> INT_MAX < v then None else Some v))"

subsection \<open>Global state\<close>

text \<open>
  A \<open>SOCKET\<close> value is either a descriptor or \<open>INVALID_SOCKET\<close>; the latter is \<open>None\<close>.
  The client list of a \<open>ZMQSocket\<close> only ever receives descriptors.
\<close>

type_synonym SOCKET = nat

record ZMQSocket =
  socket :: "SOCKET option"
  type :: string
  address :: string
  is_bound :: bool
  clients :: "SOCKET list"

record state =
  g_initialized :: bool
  g_next_handle :: int
  g_sockets :: "int \<rightharpoonup> ZMQSocket"
  g_last_error :: string

text \<open>The values of the static initialisers.\<close>

definition initial_state :: state where
  "initial_state =
     \<lparr>g_initialized = False, g_next_handle = 1, g_sockets = Map.empty, g_last_error = []\<rparr>"

text \<open>\<open>strncpy_s\<close> with \<open>_TRUNCATE\<close> into a buffer of 256 bytes keeps at most 255 characters.\<close>

definition SetLastError :: "string \<Rightarrow> state \<Rightarrow> state" where
  "SetLastError error s = s\<lparr>g_last_error := take 255 error\<rparr>"

text \<open>
  \<open>WideToUtf8\<close>: the change of text encoding is outside the model, so the argument is the
  UTF-8 form of the wide string; the result is \<open>std::string(buffer.data())\<close>, a C string.
\<close>

definition WideToUtf8 :: "string \<Rightarrow> string" where
  "WideToUtf8 wide = c_str wide"

subsection \<open>\<open>ParseAddress\<close>\<close>

text \<open>The result is the pair of the out-parameters \<open>host\<close> and \<open>port\<close>, \<open>None\<close> for \<open>false\<close>.\<close>

definition ParseAddress :: "string \<Rightarrow> state \<Rightarrow> (string \<times> int) option \<times> state" where
  "ParseAddress addr s =
     (if substr addr 0 6 \<noteq> ''tcp://''
      then (None, SetLastError ''Invalid address format (must be tcp://...)'' s)
      else
        (let hostPort = substr_from addr 6 in
         case str_find hostPort CHR '':'' of
           None \<Rightarrow> (None, SetLastError ''Invalid address format (missing port)'' s)
         | Some colonPos \<Rightarrow>
             (let host0 = substr hostPort 0 colonPos;
                  host = (if host0 = ''*'' then ''0.0.0.0'' else host0)
              in case stoi (substr_from hostPort (colonPos + 1)) of
                   None \<Rightarrow> (None, SetLastError ''Invalid port number'' s)
                 | Some port \<Rightarrow> (Some (host, port), s))))"

subsection \<open>The operating system\<close>

text \<open>
  What Winsock answers during one call of an exported function. \<open>os_pending l\<close> is the queue
  of connections waiting on the listening socket \<open>l\<close> (\<open>accept\<close> takes its head and returns
  \<open>INVALID_SOCKET\<close> once it is empty); \<open>os_send\<close> gives the result of the \<open>send\<close> to a
  client, a byte count or \<open>SOCKET_ERROR\<close> with the code \<open>WSAGetLastError\<close> then reports (a
  call of \<open>zmq_send_message\<close> sends once to each client of its list, and an open descriptor
  stands in the list once); \<open>os_recv\<close> gives the bytes the
  peer has delivered, of which one \<open>recv\<close> returns as many as the buffer takes, or
  \<open>SOCKET_ERROR\<close>; the functions with an \<open>int\<close> result answer with that value.
\<close>

datatype send_result = Sent nat | SendError int

datatype recv_result = RecvBytes string | RecvError

record world =
  os_WSAStartup :: int
  os_socket :: "SOCKET option"
  os_inet_addr :: "string \<Rightarrow> nat"
  os_bind :: "SOCKET \<Rightarrow> nat \<Rightarrow> int \<Rightarrow> int"
  os_listen :: "SOCKET \<Rightarrow> int"
  os_connect :: "SOCKET \<Rightarrow> nat \<Rightarrow> int \<Rightarrow> int"
  os_pending :: "SOCKET \<Rightarrow> SOCKET list"
  os_send :: "SOCKET \<Rightarrow> string \<Rightarrow> send_result"
  os_select :: "SOCKET option \<Rightarrow> int \<Rightarrow> int \<Rightarrow> int"
  os_recv :: "SOCKET option \<Rightarrow> recv_result"

definition SOCKET_ERROR :: int where
  "SOCKET_ERROR = - 1"

definition WSAEWOULDBLOCK :: int where
  "WSAEWOULDBLOCK = 10035"

definition INADDR_NONE :: nat where
  "INADDR_NONE = 4294967295"

text \<open>The calls a function makes on its sockets, in the order it makes them.\<close>

datatype event =
    EvAccept "SOCKET option" "SOCKET option"
  | EvNonBlocking SOCKET
  | EvSend SOCKET string
  | EvClose SOCKET
  | EvSelect "SOCKET option" int int
  | EvRecv "SOCKET option" nat

text \<open>\<open>StringToAddr\<close>: the binary address, \<open>None\<close> for \<open>false\<close>.\<close>

definition StringToAddr :: "world \<Rightarrow> string \<Rightarrow> nat option" where
  "StringToAddr w ip =
     (let ulAddr = os_inet_addr w ip
      in if ulAddr = INADDR_NONE \<and> ip \<noteq> ''255.255.255.255'' then None else Some ulAddr)"

text \<open>\<open>htons(port)\<close> converts the \<open>int\<close> to 16 bits; the byte order is not represented.\<close>

definition htons :: "int \<Rightarrow> int" where
  "htons port = port mod 65536"

subsection \<open>Initialisation and termination\<close>

definition zmq_init :: "world \<Rightarrow> state \<Rightarrow> int \<times> state" where
  "zmq_init w s =
     (if g_initialized s then (0, s)
      else (let result = os_WSAStartup w
            in if result \<noteq> 0 then (- 1, SetLastError ''WSAStartup failed'' s)
               else (0, s\<lparr>g_initialized := True\<rparr>)))"

text \<open>\<open>zmq_term\<close> deletes every socket object and clears the map; it returns nothing.\<close>

definition zmq_term :: "state \<Rightarrow> state" where
  "zmq_term s =
     (if \<not> g_initialized s then s
      else s\<lparr>g_sockets := Map.empty, g_initialized := False\<rparr>)"

subsection \<open>Creating sockets\<close>

text \<open>
  Both creation functions end with \<open>int handle = g_next_handle++; g_sockets[handle] =
  zmqSock; return handle;\<close>. The counter is an \<open>int\<close>: incrementing it at \<open>INT_MAX\<close> is
  undefined behaviour, which is the result \<open>None\<close>.
\<close>

definition new_handle :: "ZMQSocket \<Rightarrow> state \<Rightarrow> (int \<times> state) option" where
  "new_handle zmqSock s =
     (if g_next_handle s = INT_MAX then None
      else (let handle = g_next_handle s
            in Some (handle,
                 s\<lparr>g_next_handle := handle + 1,
                   g_sockets := (g_sockets s)(handle \<mapsto> zmqSock)\<rparr>)))"

text \<open>The opening lines of both: \<open>if (!g_initialized) { if (zmq_init() != 0) return -1; }\<close>;
  the first component tells whether the function goes on.\<close>

definition init_if_needed :: "world \<Rightarrow> state \<Rightarrow> bool \<times> state" where
  "init_if_needed w s =
     (if \<not> g_initialized s
      then (case zmq_init w s of (r, s') \<Rightarrow> if r \<noteq> 0 then (False, s') else (True, s'))
      else (True, s))"

definition zmq_create_publisher :: "world \<Rightarrow> string \<Rightarrow> state \<Rightarrow> (int \<times> state) option" where
  "zmq_create_publisher w address_arg s0 =
     (case init_if_needed w s0 of
        (False, s) \<Rightarrow> Some (- 1, s)
      | (True, s) \<Rightarrow>
          (let addr = WideToUtf8 address_arg in
           case ParseAddress addr s of
             (None, s1) \<Rightarrow> Some (- 1, s1)
           | (Some (host, port), s1) \<Rightarrow>
               (case os_socket w of
                  None \<Rightarrow> Some (- 1, SetLastError ''Failed to create socket'' s1)
                | Some sock \<Rightarrow>
                    (case StringToAddr w host of
                       None \<Rightarrow> Some (- 1, SetLastError ''Invalid IP address'' s1)
                     | Some sin_addr \<Rightarrow>
                         if os_bind w sock sin_addr (htons port) = SOCKET_ERROR
                         then Some (- 1, SetLastError ''Failed to bind socket'' s1)
                         else if os_listen w sock = SOCKET_ERROR
                         then Some (- 1, SetLastError ''Failed to listen on socket'' s1)
                         else new_handle
                                \<lparr>socket = Some sock, type = ''PUB'', address = addr,
                                 is_bound = True, clients = []\<rparr> s1))))"

definition zmq_create_subscriber :: "world \<Rightarrow> string \<Rightarrow> state \<Rightarrow> (int \<times> state) option" where
  "zmq_create_subscriber w address_arg s0 =
     (case init_if_needed w s0 of
        (False, s) \<Rightarrow> Some (- 1, s)
      | (True, s) \<Rightarrow>
          (let addr = WideToUtf8 address_arg in
           case ParseAddress addr s of
             (None, s1) \<Rightarrow> Some (- 1, s1)
           | (Some (host0, port), s1) \<Rightarrow>
               (let host = (if host0 = ''localhost'' then ''127.0.0.1'' else host0) in
                case os_socket w of
                  None \<Rightarrow> Some (- 1, SetLastError ''Failed to create socket'' s1)
                | Some sock \<Rightarrow>
                    (case StringToAddr w host of
                       None \<Rightarrow> Some (- 1, SetLastError ''Invalid IP address'' s1)
                     | Some sin_addr \<Rightarrow>
                         if os_connect w sock sin_addr (htons port) = SOCKET_ERROR
                         then Some (- 1, SetLastError ''Failed to connect'' s1)
                         else new_handle
                                \<lparr>socket = Some sock, type = ''SUB'', address = addr,
                                 is_bound = False, clients = []\<rparr> s1))))"

subsection \<open>Sending\<close>

text \<open>
  The loop of \<open>AcceptConnections\<close>: \<open>accept\<close> until it returns \<open>INVALID_SOCKET\<close>; each
  accepted client is set non-blocking and pushed onto the back of the client list. The
  second argument is the queue of pending connections that \<open>accept\<close> draws from.
\<close>

fun accept_loop :: "SOCKET \<Rightarrow> SOCKET list \<Rightarrow> SOCKET list \<Rightarrow> SOCKET list \<times> event list" where
  "accept_loop l [] cl = (cl, [EvAccept (Some l) None])"
| "accept_loop l (client # pending) cl =
     (case accept_loop l pending (cl @ [client]) of
        (cl', evs) \<Rightarrow> (cl', EvAccept (Some l) (Some client) # EvNonBlocking client # evs))"

definition AcceptConnections :: "world \<Rightarrow> ZMQSocket \<Rightarrow> ZMQSocket \<times> event list" where
  "AcceptConnections w sock =
     (case socket sock of
        None \<Rightarrow> (sock, [EvAccept None None])
      | Some l \<Rightarrow>
          (case accept_loop l (os_pending w l) (clients sock) of
             (cl, evs) \<Rightarrow> (sock\<lparr>clients := cl\<rparr>, evs)))"

text \<open>The first loop of \<open>zmq_send_message\<close>: one \<open>send\<close> for each client, collecting in
  \<open>disconnected\<close> those whose \<open>send\<close> fails with a code other than \<open>WSAEWOULDBLOCK\<close>.\<close>

fun send_loop :: "world \<Rightarrow> string \<Rightarrow> SOCKET list \<Rightarrow> SOCKET list \<times> event list" where
  "send_loop w msg [] = ([], [])"
| "send_loop w msg (client # rest) =
     (case send_loop w msg rest of
        (disconnected, evs) \<Rightarrow>
          (case os_send w client msg of
             Sent n \<Rightarrow> (disconnected, EvSend client msg # evs)
           | SendError error \<Rightarrow>
               if error \<noteq> WSAEWOULDBLOCK
               then (client # disconnected, EvSend client msg # evs)
               else (disconnected, EvSend client msg # evs)))"

text \<open>The second loop: each disconnected client is closed, and \<open>std::remove\<close> with \<open>erase\<close>
  takes every element equal to it out of the client list.\<close>

fun remove_loop :: "SOCKET list \<Rightarrow> SOCKET list \<Rightarrow> SOCKET list \<times> event list" where
  "remove_loop [] cl = (cl, [])"
| "remove_loop (disc # rest) cl =
     (case remove_loop rest (removeAll disc cl) of
        (cl', evs) \<Rightarrow> (cl', EvClose disc # evs))"

definition zmq_send_message ::
  "world \<Rightarrow> int \<Rightarrow> string \<Rightarrow> string \<Rightarrow> state \<Rightarrow> int \<times> state \<times> event list" where
  "zmq_send_message w handle topic message s =
     (case g_sockets s handle of
        None \<Rightarrow> (- 1, SetLastError ''Invalid handle'' s, [])
      | Some sock0 \<Rightarrow>
          (case AcceptConnections w sock0 of
             (sock, ev_accept) \<Rightarrow>
               (let topicStr = WideToUtf8 topic;
                    msgStr = WideToUtf8 message;
                    full = fullMsg topicStr msgStr
                in case send_loop w full (clients sock) of
                     (disconnected, ev_send) \<Rightarrow>
                       (case remove_loop disconnected (clients sock) of
                          (cl, ev_remove) \<Rightarrow>
                            (0,
                             s\<lparr>g_sockets := (g_sockets s)(handle \<mapsto> sock\<lparr>clients := cl\<rparr>)\<rparr>,
                             ev_accept @ ev_send @ ev_remove)))))"

text \<open>The test of the first loop on the result of \<open>send\<close>: \<open>SOCKET_ERROR\<close> with a code
  other than \<open>WSAEWOULDBLOCK\<close>.\<close>

definition send_failed :: "world \<Rightarrow> string \<Rightarrow> SOCKET \<Rightarrow> bool" where
  "send_failed w msg client =
     (case os_send w client msg of
        Sent n \<Rightarrow> False
      | SendError error \<Rightarrow> error \<noteq> WSAEWOULDBLOCK)"

text \<open>The calls of one run of \<open>AcceptConnections\<close> on the listening socket \<open>l\<close> that finds
  \<open>pending\<close> waiting: an \<open>accept\<close> and an \<open>ioctlsocket\<close> for each, then the \<open>accept\<close> that
  returns \<open>INVALID_SOCKET\<close>.\<close>

definition accept_events :: "SOCKET \<Rightarrow> SOCKET list \<Rightarrow> event list" where
  "accept_events l pending =
     concat (map (\<lambda>c. [EvAccept (Some l) (Some c), EvNonBlocking c]) pending)
     @ [EvAccept (Some l) None]"

subsection \<open>Receiving\<close>

definition zmq_subscribe :: "int \<Rightarrow> string \<Rightarrow> state \<Rightarrow> int \<times> state" where
  "zmq_subscribe handle topic s = (0, s)"

text \<open>
  The second component is the text the call hands to the conversion that fills the
  buffers \<open>topic\<close> and \<open>message\<close>, \<open>None\<close> when it leaves the buffers alone. The conversion,
  and with it the capacities \<open>topic_len\<close> and \<open>message_len\<close> that cut the text short in a
  small buffer, is outside the model. The timeout is split with the truncating division
  and remainder of C. The read buffer has 4096 bytes.
\<close>

definition zmq_recv_message ::
  "world \<Rightarrow> int \<Rightarrow> int \<Rightarrow> state \<Rightarrow> int \<times> (string \<times> string) option \<times> state \<times> event list" where
  "zmq_recv_message w handle timeout_ms s =
     (case g_sockets s handle of
        None \<Rightarrow> (- 1, None, SetLastError ''Invalid handle'' s, [])
      | Some sock \<Rightarrow>
          if type sock \<noteq> ''SUB''
          then (- 1, None, SetLastError ''Not a subscriber socket'' s, [])
          else
            (let tv_sec = timeout_ms sdiv 1000;
                 tv_usec = (timeout_ms smod 1000) * 1000;
                 ev_select = EvSelect (socket sock) tv_sec tv_usec;
                 result = os_select w (socket sock) tv_sec tv_usec
             in if result \<le> 0 then (- 1, None, s, [ev_select])
                else
                  (let ev_recv = EvRecv (socket sock) 4096 in
                   case os_recv w (socket sock) of
                     RecvError \<Rightarrow> (- 1, None, s, [ev_select, ev_recv])
                   | RecvBytes bytes \<Rightarrow>
                       (let data = take 4096 bytes;
                            received = int (length data)
                        in if received \<le> 0 then (- 1, None, s, [ev_select, ev_recv])
                           else
                             (case parse_data data of
                                None \<Rightarrow> (- 1, None, s, [ev_select, ev_recv])
                              | Some out \<Rightarrow> (0, Some out, s, [ev_select, ev_recv]))))))"

subsection \<open>Closing\<close>

text \<open>\<open>zmq_close\<close> deletes the socket object and erases the handle; the \<open>closesocket\<close> calls
  of the destructor are not recorded.\<close>

definition zmq_close :: "int \<Rightarrow> state \<Rightarrow> int \<times> state" where
  "zmq_close handle s =
     (case g_sockets s handle of
        None \<Rightarrow> (- 1, s)
      | Some sock \<Rightarrow> (0, s\<lparr>g_sockets := (g_sockets s)(handle := None)\<rparr>))"

subsection \<open>Sequences of calls\<close>

text \<open>
  A call of an exported function with its arguments. \<open>api_step\<close> gives the value the call
  returns (0 for \<open>zmq_term\<close>, which returns nothing) and the state after it; \<open>run\<close> makes
  the calls of a list in turn, each with the answers the operating system gives during
  it, and records every call with its result. \<open>None\<close> is the overflow of the handle
  counter.
\<close>

datatype api_call =
    Call_init
  | Call_term
  | Call_create_publisher string
  | Call_create_subscriber string
  | Call_send_message int string string
  | Call_subscribe int string
  | Call_recv_message int int
  | Call_close int

fun api_step :: "world \<Rightarrow> api_call \<Rightarrow> state \<Rightarrow> (int \<times> state) option" where
  "api_step w Call_init s = Some (zmq_init w s)"
| "api_step w Call_term s = Some (0, zmq_term s)"
| "api_step w (Call_create_publisher a) s = zmq_create_publisher w a s"
| "api_step w (Call_create_subscriber a) s = zmq_create_subscriber w a s"
| "api_step w (Call_send_message h t m) s =
     (case zmq_send_message w h t m s of (r, s', evs) \<Rightarrow> Some (r, s'))"
| "api_step w (Call_subscribe h t) s = Some (zmq_subscribe h t s)"
| "api_step w (Call_recv_message h t) s =
     (case zmq_recv_message w h t s of (r, out, s', evs) \<Rightarrow> Some (r, s'))"
| "api_step w (Call_close h) s = Some (zmq_close h s)"

fun run :: "(world \<times> api_call) list \<Rightarrow> state \<Rightarrow> ((api_call \<times> int) list \<times> state) option" where
  "run [] s = Some ([], s)"
| "run ((w, c) # cs) s =
     (case api_step w c s of
        None \<Rightarrow> None
      | Some (r, s') \<Rightarrow>
          (case run cs s' of
             None \<Rightarrow> None
           | Some (log, s'') \<Rightarrow> Some ((c, r) # log, s'')))"

fun is_create :: "api_call \<Rightarrow> bool" where
  "is_create (Call_create_publisher a) = True"
| "is_create (Call_create_subscriber a) = True"
| "is_create c = False"

text \<open>The handles that the successful creations of a log returned, in order.\<close>

definition created :: "(api_call \<times> int) list \<Rightarrow> int list" where
  "created log = map snd (filter (\<lambda>(c, r). is_create c \<and> r \<noteq> - 1) log)"

subsection \<open>Example worlds and states\<close>

text \<open>A world in which every call of the operating system succeeds, nothing is pending on
  any listening socket, every \<open>send\<close> takes the whole message and no data arrives.\<close>

definition plain_world :: world where
  "plain_world =
     \<lparr>os_WSAStartup = 0, os_socket = Some 100, os_inet_addr = (\<lambda>ip. 16777343),
      os_bind = (\<lambda>sock a p. 0), os_listen = (\<lambda>sock. 0), os_connect = (\<lambda>sock a p. 0),
      os_pending = (\<lambda>l. []), os_send = (\<lambda>c msg. Sent (length msg)),
      os_select = (\<lambda>sock sec usec. 0), os_recv = (\<lambda>sock. RecvError)\<rparr>"

text \<open>A state with a publisher (handle 1, three clients) and a subscriber (handle 2).\<close>

definition example_state :: state where
  "example_state =
     \<lparr>g_initialized = True, g_next_handle = 3,
      g_sockets =
        [1 \<mapsto> \<lparr>socket = Some 100, type = ''PUB'', address = ''tcp://*:5559'',
                is_bound = True, clients = [201, 202, 203]\<rparr>,
         2 \<mapsto> \<lparr>socket = Some 101, type = ''SUB'', address = ''tcp://127.0.0.1:5559'',
                is_bound = False, clients = []\<rparr>],
      g_last_error = []\<rparr>"

text \<open>Two connections wait on socket 100; the \<open>send\<close> to 201 would block
  (\<open>WSAEWOULDBLOCK\<close>), those to 202 and 204 fail (\<open>WSAECONNRESET\<close>, \<open>WSAECONNABORTED\<close>).\<close>

definition busy_world :: world where
  "busy_world =
     plain_world
       \<lparr>os_pending := (\<lambda>l. if l = 100 then [204, 205] else []),
        os_send := (\<lambda>c msg. if c = 201 then SendError 10035
                             else if c = 202 then SendError 10054
                             else if c = 204 then SendError 10053
                             else Sent (length msg))\<rparr>"

text \<open>The socket is readable and \<open>recv\<close> returns 0: the peer has closed the connection.\<close>

definition closed_world :: world where
  "closed_world =
     plain_world\<lparr>os_select := (\<lambda>sock sec usec. 1), os_recv := (\<lambda>sock. RecvBytes [])\<rparr>"

text \<open>The socket is readable and \<open>recv\<close> returns three bytes without a NUL.\<close>

definition malformed_world :: world where
  "malformed_world =
     plain_world\<lparr>os_select := (\<lambda>sock sec usec. 1), os_recv := (\<lambda>sock. RecvBytes ''abc'')\<rparr>"


text \<open>A connection waits on socket 101, the socket of the subscriber.\<close>

definition sub_pending_world :: world where
  "sub_pending_world = plain_world\<lparr>os_pending := (\<lambda>l. if l = 101 then [300] else [])\<rparr>"

text \<open>A sequence of calls after the unit test: creations, a rejected address, a close, a
  termination and a creation after it.\<close>

definition example_calls :: "(world \<times> api_call) list" where
  "example_calls =
     [(plain_world, Call_init),
      (plain_world, Call_create_publisher ''tcp://*:5558''),
      (plain_world, Call_create_publisher ''invalid://address''),
      (plain_world, Call_send_message 1 ''test.topic'' ''test message''),
      (plain_world, Call_create_subscriber ''tcp://127.0.0.1:5558''),
      (plain_world, Call_close 1),
      (plain_world, Call_term),
      (plain_world, Call_create_publisher ''tcp://*:5560'')]"

section \<open>Properties\<close>

subsection \<open>Strings and framing\<close>

lemma str_find_None: "str_find s ch = None \<longleftrightarrow> ch \<notin> set s"
  by (induction s) (auto split: option.splits)

lemma str_find_Some_mem: "str_find s ch = Some i \<Longrightarrow> ch \<in> set s"
  using str_find_None [of s ch] by auto

lemma str_find_append:
  "ch \<notin> set xs \<Longrightarrow> str_find (xs @ ch # ys) ch = Some (length xs)"
  by (induction xs) auto

lemma str_find_SomeD:
  "str_find s ch = Some i \<Longrightarrow> i < length s \<and> s ! i = ch \<and> ch \<notin> set (take i s)"
  by (induction s arbitrary: i) (auto split: if_splits option.splits)

lemma str_find_split:
  "str_find s ch = Some i \<Longrightarrow> s = take i s @ ch # drop (Suc i) s \<and> ch \<notin> set (take i s)"
  using str_find_SomeD [of s ch i] id_take_nth_drop [of i s] by auto

lemma str_find_Some_iff:
  "str_find s ch = Some i \<longleftrightarrow> (\<exists>h rest. s = h @ ch # rest \<and> ch \<notin> set h \<and> i = length h)"
proof
  assume found: "str_find s ch = Some i"
  from str_find_split [OF found] str_find_SomeD [OF found]
  show "\<exists>h rest. s = h @ ch # rest \<and> ch \<notin> set h \<and> i = length h"
    by (intro exI [of _ "take i s"] exI [of _ "drop (Suc i) s"]) auto
next
  assume "\<exists>h rest. s = h @ ch # rest \<and> ch \<notin> set h \<and> i = length h"
  then show "str_find s ch = Some i" by (auto simp: str_find_append)
qed

lemma dropWhile_hd: "xs = [] \<or> \<not> P (hd xs) \<Longrightarrow> dropWhile P xs = xs"
  by (cases xs) auto

lemma takeWhile_hd: "xs = [] \<or> \<not> P (hd xs) \<Longrightarrow> takeWhile P xs = []"
  by (cases xs) auto

lemma dropWhile_prefix:
  "list_all P ws \<Longrightarrow> xs = [] \<or> \<not> P (hd xs) \<Longrightarrow> dropWhile P (ws @ xs) = xs"
  by (induction ws) (simp_all add: dropWhile_hd)

lemma takeWhile_prefix:
  "list_all P ds \<Longrightarrow> xs = [] \<or> \<not> P (hd xs) \<Longrightarrow> takeWhile P (ds @ xs) = ds"
  by (induction ds) (simp_all add: takeWhile_hd)

lemma c_str_id: "NUL \<notin> set s \<Longrightarrow> c_str s = s"
  by (auto simp: c_str_def)

text \<open>
  Claim C1. For every topic and payload without the separator byte, parsing the frame
  that the publisher builds gives back exactly that topic and that payload.
\<close>

theorem frame_roundtrip:
  assumes "NUL \<notin> set topic" and "NUL \<notin> set payload"
  shows "parse_data (fullMsg topic payload) = Some (topic, payload)"
proof -
  have "str_find (fullMsg topic payload) NUL = Some (length topic)"
    using assms(1) by (simp add: fullMsg_def str_find_append)
  then show ?thesis
    using assms by (simp add: parse_data_def fullMsg_def substr_def substr_from_def c_str_id)
qed

theorem frame_roundtrip_witness:
  "NUL \<notin> set ''unit.test'' \<and> NUL \<notin> set ''{\"test\":\"data\"}''
   \<and> parse_data (fullMsg ''unit.test'' ''{\"test\":\"data\"}'')
       = Some (''unit.test'', ''{\"test\":\"data\"}'')"
proof -
  have a: "NUL \<notin> set ''unit.test''" by (simp add: NUL_def)
  have b: "NUL \<notin> set ''{\"test\":\"data\"}''" by (simp add: NUL_def)
  show ?thesis using a b frame_roundtrip [OF a b] by (intro conjI)
qed

text \<open>The frame that \<open>zmq_send_message\<close> builds from its two arguments always parses into
  those arguments as \<open>WideToUtf8\<close> delivers them.\<close>

lemma c_str_no_NUL: "NUL \<notin> set (c_str s)"
  by (induction s) (auto simp: c_str_def)

lemma sent_frame_parses:
  "parse_data (fullMsg (WideToUtf8 topic) (WideToUtf8 message))
     = Some (WideToUtf8 topic, WideToUtf8 message)"
proof -
  have "str_find (fullMsg (WideToUtf8 topic) (WideToUtf8 message)) NUL
          = Some (length (WideToUtf8 topic))"
    by (simp add: fullMsg_def WideToUtf8_def str_find_append c_str_no_NUL)
  then show ?thesis
    by (simp add: parse_data_def fullMsg_def substr_def substr_from_def WideToUtf8_def
        c_str_id c_str_no_NUL)
qed

subsection \<open>The address parser\<close>

lemma sign_not_space: "\<not> isspace CHR ''+''" "\<not> isspace CHR ''-''"
  by (simp_all add: isspace_def)

lemma digit_not_space: "isdigit c \<Longrightarrow> \<not> isspace c"
  by (auto simp: isdigit_def isspace_def)

lemma digit_not_sign: "isdigit c \<Longrightarrow> c \<noteq> CHR ''+'' \<and> c \<noteq> CHR ''-''"
  by (auto simp: isdigit_def)

text \<open>\<open>stoi\<close> accepts white space, an optional sign and a non-empty run of digits, followed
  by anything that does not continue the run, when the value fits an \<open>int\<close>.\<close>

lemma stoi_complete:
  assumes "str = ws @ sign @ ds @ rest" "list_all isspace ws"
    "sign = [] \<or> sign = ''+'' \<or> sign = ''-''"
    "ds \<noteq> []" "list_all isdigit ds" "rest = [] \<or> \<not> isdigit (hd rest)"
    "v = (if sign = ''-'' then - decimal ds else decimal ds)" "INT_MIN \<le> v" "v \<le> INT_MAX"
  shows "stoi str = Some v"
proof -
  obtain d ds' where ds: "ds = d # ds'" using assms(4) by (cases ds) auto
  then have d: "isdigit d" using assms(5) by simp
  have hd_nsp: "\<not> isspace (hd (sign @ ds @ rest))"
    using assms(3) d ds by (auto simp: sign_not_space digit_not_space)
  have s1: "dropWhile isspace str = sign @ ds @ rest"
    unfolding assms(1) using assms(2) hd_nsp by (intro dropWhile_prefix) auto
  have tw: "takeWhile isdigit (ds @ rest) = ds"
    using assms(5,6) by (rule takeWhile_prefix)
  from assms(3) show ?thesis
  proof (elim disjE)
    assume "sign = []"
    then show ?thesis
      using s1 tw d ds assms(7,8,9) digit_not_sign [OF d]
      by (simp add: stoi_def Let_def)
  next
    assume "sign = ''+''"
    then show ?thesis
      using s1 tw ds assms(7,8,9) by (simp add: stoi_def Let_def)
  next
    assume "sign = ''-''"
    then show ?thesis
      using s1 tw ds assms(7,8,9) by (simp add: stoi_def Let_def)
  qed
qed

lemma stoi_sound:
  assumes "stoi str = Some v"
  shows "\<exists>ws sign ds rest.
           str = ws @ sign @ ds @ rest \<and> list_all isspace ws
           \<and> (sign = [] \<or> sign = ''+'' \<or> sign = ''-'')
           \<and> ds \<noteq> [] \<and> list_all isdigit ds \<and> (rest = [] \<or> \<not> isdigit (hd rest))
           \<and> v = (if sign = ''-'' then - decimal ds else decimal ds)
           \<and> INT_MIN \<le> v \<and> v \<le> INT_MAX"
proof -
  define ws where "ws = takeWhile isspace str"
  define s1 where "s1 = dropWhile isspace str"
  define sign where
    "sign = (if s1 \<noteq> [] \<and> (hd s1 = CHR ''-'' \<or> hd s1 = CHR ''+'') then [hd s1] else [])"
  define s2 where
    "s2 = (if s1 \<noteq> [] \<and> (hd s1 = CHR ''-'' \<or> hd s1 = CHR ''+'') then tl s1 else s1)"
  define ds where "ds = takeWhile isdigit s2"
  define rest where "rest = dropWhile isdigit s2"
  have a: "str = ws @ s1" by (simp add: ws_def s1_def)
  have b: "s1 = sign @ s2" by (auto simp: sign_def s2_def)
  have c: "s2 = ds @ rest" by (simp add: ds_def rest_def)
  have ws: "list_all isspace ws" by (simp add: ws_def list_all_iff) (meson set_takeWhileD)
  have dsd: "list_all isdigit ds" by (simp add: ds_def list_all_iff) (meson set_takeWhileD)
  have r: "rest = [] \<or> \<not> isdigit (hd rest)"
    unfolding rest_def by (metis hd_dropWhile)
  have sg: "sign = [] \<or> sign = ''+'' \<or> sign = ''-''" by (auto simp: sign_def)
  have neg: "(s1 \<noteq> [] \<and> hd s1 = CHR ''-'') \<longleftrightarrow> sign = ''-''" by (auto simp: sign_def)
  from assms have nz: "ds \<noteq> []"
    by (auto simp: stoi_def Let_def ds_def s2_def s1_def split: if_splits)
  from assms
  have v: "v = (if sign = ''-'' then - decimal ds else decimal ds) \<and> INT_MIN \<le> v \<and> v \<le> INT_MAX"
    unfolding stoi_def Let_def
    using neg nz by (auto simp: ds_def s2_def s1_def split: if_splits)
  show ?thesis
    using a b c ws dsd r sg nz v
    by (intro exI [of _ ws] exI [of _ sign] exI [of _ ds] exI [of _ rest]) simp
qed

text \<open>The result of \<open>ParseAddress\<close> without the state.\<close>

lemma ParseAddress_fst:
  "fst (ParseAddress addr s) =
     (if take 6 addr = ''tcp://''
      then (case str_find (drop 6 addr) CHR '':'' of
              None \<Rightarrow> None
            | Some i \<Rightarrow>
                map_option
                  (\<lambda>p. (if take i (drop 6 addr) = ''*'' then ''0.0.0.0''
                        else take i (drop 6 addr), p))
                  (stoi (drop (Suc i) (drop 6 addr))))
      else None)"
  by (simp add: ParseAddress_def substr_def substr_from_def Let_def split: option.splits)

text \<open>
  Claim C4, as the code has it. \<open>ParseAddress\<close> succeeds with a host and a port exactly
  when the string is \<open>tcp://\<close>, a host part without a colon, a colon, and a port part that
  begins, after optional white space and an optional sign, with a non-empty run of decimal
  digits whose signed value fits an \<open>int\<close>; what follows the digits is ignored; the host
  \<open>*\<close> becomes \<open>0.0.0.0\<close>. The port is not checked against the range from 1 to 65535.
  Every other string (another scheme, no colon, no leading number in the port part, a
  value beyond an \<open>int\<close>) is rejected.
\<close>

theorem ParseAddress_succeeds_iff:
  "fst (ParseAddress addr s) = Some (host, port) \<longleftrightarrow>
     (\<exists>h ws sign ds rest.
        addr = ''tcp://'' @ h @ '':'' @ ws @ sign @ ds @ rest
        \<and> CHR '':'' \<notin> set h
        \<and> list_all isspace ws
        \<and> (sign = [] \<or> sign = ''+'' \<or> sign = ''-'')
        \<and> ds \<noteq> [] \<and> list_all isdigit ds \<and> (rest = [] \<or> \<not> isdigit (hd rest))
        \<and> host = (if h = ''*'' then ''0.0.0.0'' else h)
        \<and> port = (if sign = ''-'' then - decimal ds else decimal ds)
        \<and> INT_MIN \<le> port \<and> port \<le> INT_MAX)"
  (is "?L \<longleftrightarrow> ?R")
proof
  assume L: ?L
  then have scheme: "take 6 addr = ''tcp://''"
    by (simp add: ParseAddress_fst split: if_splits)
  then have addr: "addr = ''tcp://'' @ drop 6 addr"
    by (metis append_take_drop_id)
  from L scheme obtain i where i: "str_find (drop 6 addr) CHR '':'' = Some i"
    by (auto simp: ParseAddress_fst split: option.splits)
  then obtain h tl where hp: "drop 6 addr = h @ CHR '':'' # tl" "CHR '':'' \<notin> set h" "i = length h"
    unfolding str_find_Some_iff by blast
  from L scheme i hp have st: "stoi tl = Some port"
    and host: "host = (if h = ''*'' then ''0.0.0.0'' else h)"
    by (auto simp: ParseAddress_fst)
  from stoi_sound [OF st] obtain ws sign ds rest where
    "tl = ws @ sign @ ds @ rest" "list_all isspace ws"
    "sign = [] \<or> sign = ''+'' \<or> sign = ''-''"
    "ds \<noteq> []" "list_all isdigit ds" "rest = [] \<or> \<not> isdigit (hd rest)"
    "port = (if sign = ''-'' then - decimal ds else decimal ds)"
    "INT_MIN \<le> port" "port \<le> INT_MAX"
    by blast
  with addr hp host show ?R
    by (intro exI [of _ h] exI [of _ ws] exI [of _ sign] exI [of _ ds] exI [of _ rest]) simp
next
  assume ?R
  then obtain h ws sign ds rest where
    addr: "addr = ''tcp://'' @ h @ '':'' @ ws @ sign @ ds @ rest"
    and h: "CHR '':'' \<notin> set h"
    and rest: "list_all isspace ws" "sign = [] \<or> sign = ''+'' \<or> sign = ''-''"
      "ds \<noteq> []" "list_all isdigit ds" "rest = [] \<or> \<not> isdigit (hd rest)"
      "port = (if sign = ''-'' then - decimal ds else decimal ds)"
      "INT_MIN \<le> port" "port \<le> INT_MAX"
    and host: "host = (if h = ''*'' then ''0.0.0.0'' else h)"
    by blast
  have st: "stoi (ws @ sign @ ds @ rest) = Some port"
    using rest by (intro stoi_complete [OF refl])
  have scheme: "take 6 addr = ''tcp://''"
    and hp: "drop 6 addr = h @ CHR '':'' # (ws @ sign @ ds @ rest)"
    by (simp_all add: addr)
  have i: "str_find (drop 6 addr) CHR '':'' = Some (length h)"
    unfolding hp using h by (rule str_find_append)
  show ?L
    using scheme i st host by (simp add: ParseAddress_fst hp)
qed

theorem ParseAddress_succeeds_iff_witness:
  "fst (ParseAddress ''tcp://*:5556'' initial_state) = Some (''0.0.0.0'', 5556)"
proof -
  have "\<exists>h ws sign ds rest.
        ''tcp://*:5556'' = ''tcp://'' @ h @ '':'' @ ws @ sign @ ds @ rest
        \<and> CHR '':'' \<notin> set h
        \<and> list_all isspace ws
        \<and> (sign = [] \<or> sign = ''+'' \<or> sign = ''-'')
        \<and> ds \<noteq> [] \<and> list_all isdigit ds \<and> (rest = [] \<or> \<not> isdigit (hd rest))
        \<and> ''0.0.0.0'' = (if h = ''*'' then ''0.0.0.0'' else h)
        \<and> (5556::int) = (if sign = ''-'' then - decimal ds else decimal ds)
        \<and> INT_MIN \<le> (5556::int) \<and> (5556::int) \<le> INT_MAX"
    by (intro exI [of _ "''*''"] exI [of _ "[]"] exI [of _ "[]"] exI [of _ "''5556''"]
          exI [of _ "[]"])
       (simp add: isdigit_def decimal_def digit_val_def INT_MIN_def INT_MAX_def)
  then show ?thesis
    using ParseAddress_succeeds_iff [of "''tcp://*:5556''" initial_state "''0.0.0.0''" 5556]
    by blast
qed

text \<open>The ports 0 and 99999 are accepted, and so is a port followed by other text.\<close>

theorem ParseAddress_port_unchecked:
  "fst (ParseAddress ''tcp://*:0'' initial_state) = Some (''0.0.0.0'', 0)
   \<and> fst (ParseAddress ''tcp://*:99999'' initial_state) = Some (''0.0.0.0'', 99999)
   \<and> fst (ParseAddress ''tcp://*:5556abc'' initial_state) = Some (''0.0.0.0'', 5556)"
  by (simp add: ParseAddress_def substr_def substr_from_def stoi_def isspace_def isdigit_def
      decimal_def digit_val_def INT_MAX_def INT_MIN_def)

subsection \<open>Creating sockets\<close>

lemma ParseAddress_None_error:
  "fst (ParseAddress addr s) = None \<Longrightarrow> g_last_error (snd (ParseAddress addr s)) \<noteq> []"
  by (auto simp: ParseAddress_def SetLastError_def Let_def split: option.splits if_splits)

lemma init_if_needed_False:
  "init_if_needed w s = (False, s') \<longleftrightarrow>
     (\<not> g_initialized s \<and> os_WSAStartup w \<noteq> 0 \<and> s' = SetLastError ''WSAStartup failed'' s)"
  by (auto simp: init_if_needed_def zmq_init_def Let_def split: if_splits)

text \<open>
  Claim C8. When \<open>ParseAddress\<close> rejects the address, \<open>zmq_create_publisher\<close> returns \<open>-1\<close>
  and the last-error text is not empty afterwards.
\<close>

theorem create_publisher_rejected_address:
  assumes "fst (ParseAddress (WideToUtf8 address_arg) s) = None"
  shows "\<exists>s'. zmq_create_publisher w address_arg s = Some (- 1, s') \<and> g_last_error s' \<noteq> []"
proof (cases "init_if_needed w s")
  case (Pair ok s1)
  show ?thesis
  proof (cases ok)
    case False
    with Pair have "s1 = SetLastError ''WSAStartup failed'' s"
      by (simp add: init_if_needed_False)
    with Pair False show ?thesis
      by (simp add: zmq_create_publisher_def SetLastError_def)
  next
    case True
    from assms have none: "fst (ParseAddress (WideToUtf8 address_arg) s1) = None"
      by (simp add: ParseAddress_fst)
    then obtain s2 where p: "ParseAddress (WideToUtf8 address_arg) s1 = (None, s2)"
      by (cases "ParseAddress (WideToUtf8 address_arg) s1") auto
    with ParseAddress_None_error [OF none] have "g_last_error s2 \<noteq> []" by simp
    with Pair True p show ?thesis
      by (simp add: zmq_create_publisher_def)
  qed
qed

theorem create_publisher_rejected_address_witness:
  "fst (ParseAddress (WideToUtf8 ''invalid://address'') initial_state) = None
   \<and> (\<exists>s'. zmq_create_publisher plain_world ''invalid://address'' initial_state = Some (- 1, s')
        \<and> g_last_error s' \<noteq> [])"
proof -
  have a: "fst (ParseAddress (WideToUtf8 ''invalid://address'') initial_state) = None"
    by (simp add: ParseAddress_fst WideToUtf8_def c_str_def NUL_def)
  show ?thesis
    using a create_publisher_rejected_address [OF a, of plain_world] by blast
qed



lemma create_publisher_example:
  "map_option fst (zmq_create_publisher plain_world ''tcp://*:5558'' initial_state) = Some 1"
  by (simp add: zmq_create_publisher_def init_if_needed_def zmq_init_def plain_world_def
      initial_state_def WideToUtf8_def c_str_def NUL_def ParseAddress_def substr_def
      substr_from_def stoi_def isspace_def isdigit_def decimal_def digit_val_def INT_MAX_def
      INT_MIN_def StringToAddr_def INADDR_NONE_def htons_def SOCKET_ERROR_def new_handle_def
      SetLastError_def)

subsection \<open>Sending\<close>

lemma accept_loop_eq: "accept_loop l pending cl = (cl @ pending, accept_events l pending)"
  by (induction pending arbitrary: cl) (simp_all add: accept_events_def)

lemma send_loop_eq:
  "send_loop w msg cl = (filter (send_failed w msg) cl, map (\<lambda>c. EvSend c msg) cl)"
  by (induction cl) (auto simp: send_failed_def split: send_result.splits)

lemma remove_loop_eq:
  "remove_loop disc cl = (filter (\<lambda>c. c \<notin> set disc) cl, map EvClose disc)"
proof (induction disc arbitrary: cl)
  case Nil
  then show ?case by simp
next
  case (Cons d disc)
  have "filter (\<lambda>c. c \<notin> set disc) (removeAll d cl) = filter (\<lambda>c. c \<notin> set (d # disc)) cl"
    by (induction cl) auto
  with Cons show ?case by simp
qed

lemma filter_not_failed:
  "filter (\<lambda>c. c \<notin> set (filter P cl)) cl = filter (\<lambda>c. \<not> P c) cl"
  by (rule filter_cong) auto

text \<open>What \<open>zmq_send_message\<close> does on a registered handle whose socket is valid.\<close>

lemma zmq_send_message_registered:
  assumes "g_sockets s handle = Some sock" and "socket sock = Some l"
  shows "zmq_send_message w handle topic message s =
     (let peers = clients sock @ os_pending w l;
          full = fullMsg (WideToUtf8 topic) (WideToUtf8 message)
      in (0,
          s\<lparr>g_sockets := (g_sockets s)(handle \<mapsto>
               sock\<lparr>clients := filter (\<lambda>c. \<not> send_failed w full c) peers\<rparr>)\<rparr>,
          accept_events l (os_pending w l)
          @ map (\<lambda>c. EvSend c full) peers
          @ map EvClose (filter (send_failed w full) peers)))"
proof -
  define peers where "peers = clients sock @ os_pending w l"
  define full where "full = fullMsg (WideToUtf8 topic) (WideToUtf8 message)"
  have a: "AcceptConnections w sock = (sock\<lparr>clients := peers\<rparr>, accept_events l (os_pending w l))"
    using assms(2) by (simp add: AcceptConnections_def accept_loop_eq peers_def)
  have c: "remove_loop (filter (send_failed w full) peers) peers
             = (filter (\<lambda>c. \<not> send_failed w full c) peers,
                map EvClose (filter (send_failed w full) peers))"
    unfolding remove_loop_eq filter_not_failed ..
  have "zmq_send_message w handle topic message s =
          (0,
           s\<lparr>g_sockets := (g_sockets s)(handle \<mapsto>
                sock\<lparr>clients := filter (\<lambda>c. \<not> send_failed w full c) peers\<rparr>)\<rparr>,
           accept_events l (os_pending w l)
           @ map (\<lambda>c. EvSend c full) peers
           @ map EvClose (filter (send_failed w full) peers))"
    unfolding zmq_send_message_def Let_def full_def [symmetric]
    by (simp add: assms(1) a send_loop_eq c)
  then show ?thesis
    by (simp only: Let_def peers_def full_def)
qed

lemma example_state_1:
  "g_sockets example_state 1 =
     Some \<lparr>socket = Some 100, type = ''PUB'', address = ''tcp://*:5559'',
           is_bound = True, clients = [201, 202, 203]\<rparr>"
  by (simp add: example_state_def)

lemma example_state_2:
  "g_sockets example_state 2 =
     Some \<lparr>socket = Some 101, type = ''SUB'', address = ''tcp://127.0.0.1:5559'',
           is_bound = False, clients = []\<rparr>"
  by (simp add: example_state_def)

text \<open>
  Claim C2. \<open>zmq_send_message\<close> returns 0 on every registered handle, whatever the client
  list holds and whatever the operating system answers (nothing pending, an empty client
  list, sends that would block, sends that fail), and \<open>-1\<close> only on a handle that is not in
  the registry.
\<close>

theorem send_returns_success:
  "fst (zmq_send_message w handle topic message s) = (if g_sockets s handle = None then - 1 else 0)"
  by (simp add: zmq_send_message_def Let_def split: option.splits prod.splits)

theorem send_returns_success_witness:
  "g_sockets example_state 1 \<noteq> None
   \<and> fst (zmq_send_message busy_world 1 ''test.topic'' ''test message'' example_state) = 0
   \<and> fst (zmq_send_message plain_world 1 ''test.topic'' ''test message''
            (example_state\<lparr>g_sockets := (g_sockets example_state)(1 \<mapsto>
               \<lparr>socket = Some 100, type = ''PUB'', address = ''tcp://*:5559'',
                is_bound = True, clients = []\<rparr>)\<rparr>)) = 0
   \<and> g_sockets example_state 9999 = None
   \<and> fst (zmq_send_message busy_world 9999 ''test'' ''test'' example_state) = - 1"
proof -
  have a: "g_sockets example_state 1 \<noteq> None" by (simp add: example_state_def)
  have b: "g_sockets example_state 9999 = None" by (simp add: example_state_def)
  show ?thesis
    using a b
      send_returns_success [of busy_world 1 "''test.topic''" "''test message''" example_state]
      send_returns_success [of plain_world 1 "''test.topic''" "''test message''"
        "example_state\<lparr>g_sockets := (g_sockets example_state)(1 \<mapsto>
               \<lparr>socket = Some 100, type = ''PUB'', address = ''tcp://*:5559'',
                is_bound = True, clients = []\<rparr>)\<rparr>"]
      send_returns_success [of busy_world 9999 "''test''" "''test''" example_state]
    by simp
qed

text \<open>
  Claim C7. In an initialised state, where the critical section that the function enters
  exists, \<open>zmq_send_message\<close> on a handle that is not in the registry returns \<open>-1\<close>, makes
  no call on any socket, and leaves the state as it was but for the last-error text: the
  registry, with every client list and every socket in it, is unchanged. (Before the
  first initialisation and after \<open>zmq_term\<close> the call is undefined.)
\<close>

theorem send_unknown_handle:
  assumes "g_initialized s" and "g_sockets s handle = None"
  shows "zmq_send_message w handle topic message s
           = (- 1, s\<lparr>g_last_error := ''Invalid handle''\<rparr>, [])
         \<and> g_sockets (fst (snd (zmq_send_message w handle topic message s))) = g_sockets s"
  using assms by (simp add: zmq_send_message_def SetLastError_def)

theorem send_unknown_handle_witness:
  "g_initialized example_state
   \<and> g_sockets example_state 9999 = None
   \<and> zmq_send_message busy_world 9999 ''test'' ''test'' example_state
        = (- 1, example_state\<lparr>g_last_error := ''Invalid handle''\<rparr>, [])
   \<and> g_sockets (fst (snd (zmq_send_message busy_world 9999 ''test'' ''test'' example_state)))
        = g_sockets example_state"
proof -
  have i: "g_initialized example_state" by (simp add: example_state_def)
  have a: "g_sockets example_state 9999 = None" by (simp add: example_state_def)
  show ?thesis
    using i a send_unknown_handle [OF i a, of busy_world "''test''" "''test''"] by simp
qed

text \<open>
  Claim C6. On a registered handle with a valid socket \<open>l\<close>, \<open>zmq_send_message\<close> first
  accepts every pending connection, sets each accepted client non-blocking and appends it
  to the client list; then it sends the frame once to every client of the extended list,
  in order; a client is closed and removed exactly when its \<open>send\<close> failed with a code
  other than \<open>WSAEWOULDBLOCK\<close>, so a client whose \<open>send\<close> would block stays, and the list
  keeps its order.
\<close>

theorem send_admission_broadcast:
  assumes "g_sockets s handle = Some sock" and "socket sock = Some l"
  shows "zmq_send_message w handle topic message s =
     (let peers = clients sock @ os_pending w l;
          full = fullMsg (WideToUtf8 topic) (WideToUtf8 message)
      in (0,
          s\<lparr>g_sockets := (g_sockets s)(handle \<mapsto>
               sock\<lparr>clients := filter (\<lambda>c. \<not> send_failed w full c) peers\<rparr>)\<rparr>,
          accept_events l (os_pending w l)
          @ map (\<lambda>c. EvSend c full) peers
          @ map EvClose (filter (send_failed w full) peers)))"
  using assms by (rule zmq_send_message_registered)

lemma busy_send_failed:
  "send_failed busy_world msg c \<longleftrightarrow> c = 202 \<or> c = 204"
  by (simp add: send_failed_def busy_world_def plain_world_def WSAEWOULDBLOCK_def)

theorem send_admission_broadcast_witness:
  "g_sockets example_state 1 =
     Some \<lparr>socket = Some 100, type = ''PUB'', address = ''tcp://*:5559'',
           is_bound = True, clients = [201, 202, 203]\<rparr>
   \<and> zmq_send_message busy_world 1 ''t'' ''m'' example_state =
       (0,
        example_state\<lparr>g_sockets := (g_sockets example_state)(1 \<mapsto>
           \<lparr>socket = Some 100, type = ''PUB'', address = ''tcp://*:5559'',
            is_bound = True, clients = [201, 203, 205]\<rparr>)\<rparr>,
        [EvAccept (Some 100) (Some 204), EvNonBlocking 204,
         EvAccept (Some 100) (Some 205), EvNonBlocking 205,
         EvAccept (Some 100) None,
         EvSend 201 [CHR ''t'', NUL, CHR ''m''], EvSend 202 [CHR ''t'', NUL, CHR ''m''],
         EvSend 203 [CHR ''t'', NUL, CHR ''m''], EvSend 204 [CHR ''t'', NUL, CHR ''m''],
         EvSend 205 [CHR ''t'', NUL, CHR ''m''],
         EvClose 202, EvClose 204])"
proof -
  have p: "os_pending busy_world 100 = [204, 205]"
    by (simp add: busy_world_def plain_world_def)
  have f: "fullMsg (WideToUtf8 ''t'') (WideToUtf8 ''m'') = [CHR ''t'', NUL, CHR ''m'']"
    by (simp add: fullMsg_def WideToUtf8_def c_str_def NUL_def)
  show ?thesis
    using example_state_1
      send_admission_broadcast [OF example_state_1, of 100 busy_world "''t''" "''m''"]
    by (simp add: p f busy_send_failed accept_events_def Let_def)
qed


subsection \<open>Receiving\<close>

text \<open>A frame of at most 4096 bytes that arrives whole on a readable subscriber socket is
  returned to the caller.\<close>

lemma recv_delivers_frame:
  assumes "g_sockets s handle = Some sock" and "type sock = ''SUB''"
    and "0 < os_select w (socket sock) (timeout_ms sdiv 1000) ((timeout_ms smod 1000) * 1000)"
    and "os_recv w (socket sock) = RecvBytes (fullMsg topic payload)"
    and "length (fullMsg topic payload) \<le> 4096"
    and "NUL \<notin> set topic" and "NUL \<notin> set payload"
  shows "zmq_recv_message w handle timeout_ms s =
           (0, Some (topic, payload), s,
            [EvSelect (socket sock) (timeout_ms sdiv 1000) ((timeout_ms smod 1000) * 1000),
             EvRecv (socket sock) 4096])"
proof -
  have p: "parse_data (fullMsg topic payload) = Some (topic, payload)"
    using assms(6,7)
    by (simp add: parse_data_def fullMsg_def str_find_append substr_def substr_from_def c_str_id)
  have ne: "fullMsg topic payload \<noteq> []" by (simp add: fullMsg_def)
  show ?thesis
    using assms(1-5) p ne by (simp add: zmq_recv_message_def Let_def)
qed

text \<open>
  Claim C3, as the code has it. On a registered subscriber handle, a call of
  \<open>zmq_recv_message\<close> during which \<open>select\<close> reports nothing readable (a result of 0, or
  an error) returns \<open>-1\<close> without reading, leaves the buffers alone and changes nothing in
  the state, the last-error text included. It returns the same \<open>-1\<close>, with the buffers
  and the state untouched as well, when \<open>recv\<close> returns 0 or an error and when the bytes read
  hold no NUL. What the caller sees is the same in the three cases.
\<close>

theorem recv_failures_alike:
  assumes "g_sockets s handle = Some sock" and "type sock = ''SUB''"
  shows "(os_select w (socket sock) (timeout_ms sdiv 1000) ((timeout_ms smod 1000) * 1000) \<le> 0 \<longrightarrow>
            zmq_recv_message w handle timeout_ms s =
              (- 1, None, s,
               [EvSelect (socket sock) (timeout_ms sdiv 1000) ((timeout_ms smod 1000) * 1000)]))
       \<and> (0 < os_select w (socket sock) (timeout_ms sdiv 1000) ((timeout_ms smod 1000) * 1000)
            \<and> (os_recv w (socket sock) = RecvError \<or> os_recv w (socket sock) = RecvBytes [])
          \<longrightarrow>
            zmq_recv_message w handle timeout_ms s =
              (- 1, None, s,
               [EvSelect (socket sock) (timeout_ms sdiv 1000) ((timeout_ms smod 1000) * 1000),
                EvRecv (socket sock) 4096]))
       \<and> (0 < os_select w (socket sock) (timeout_ms sdiv 1000) ((timeout_ms smod 1000) * 1000)
            \<and> os_recv w (socket sock) = RecvBytes bytes \<and> NUL \<notin> set (take 4096 bytes)
          \<longrightarrow>
            zmq_recv_message w handle timeout_ms s =
              (- 1, None, s,
               [EvSelect (socket sock) (timeout_ms sdiv 1000) ((timeout_ms smod 1000) * 1000),
                EvRecv (socket sock) 4096]))"
  using assms
  by (auto simp: zmq_recv_message_def Let_def parse_data_def str_find_None split: option.splits
      dest: str_find_Some_mem)

lemma timeout_100: "(100::int) sdiv 1000 = 0" "(100::int) smod 1000 * 1000 = 100000"
  by (simp_all add: signed_divide_int_def signed_modulo_int_def)

theorem recv_failures_alike_witness:
  "g_sockets example_state 2 =
     Some \<lparr>socket = Some 101, type = ''SUB'', address = ''tcp://127.0.0.1:5559'',
           is_bound = False, clients = []\<rparr>
   \<and> os_select plain_world (Some 101) 0 100000 \<le> 0
   \<and> zmq_recv_message plain_world 2 100 example_state
        = (- 1, None, example_state, [EvSelect (Some 101) 0 100000])
   \<and> 0 < os_select closed_world (Some 101) 0 100000
   \<and> os_recv closed_world (Some 101) = RecvBytes []
   \<and> zmq_recv_message closed_world 2 100 example_state
        = (- 1, None, example_state, [EvSelect (Some 101) 0 100000, EvRecv (Some 101) 4096])
   \<and> 0 < os_select malformed_world (Some 101) 0 100000
   \<and> os_recv malformed_world (Some 101) = RecvBytes ''abc''
   \<and> NUL \<notin> set (take 4096 ''abc'')
   \<and> zmq_recv_message malformed_world 2 100 example_state
        = (- 1, None, example_state, [EvSelect (Some 101) 0 100000, EvRecv (Some 101) 4096])"
proof -
  have t: "type \<lparr>socket = Some 101, type = ''SUB'', address = ''tcp://127.0.0.1:5559'',
           is_bound = False, clients = []\<rparr> = ''SUB''" by simp
  have a: "os_select plain_world (Some 101) 0 100000 \<le> 0" by (simp add: plain_world_def)
  have b: "0 < os_select closed_world (Some 101) 0 100000"
    "os_recv closed_world (Some 101) = RecvBytes []"
    by (simp_all add: closed_world_def plain_world_def)
  have c: "0 < os_select malformed_world (Some 101) 0 100000"
    "os_recv malformed_world (Some 101) = RecvBytes ''abc''" "NUL \<notin> set (take 4096 ''abc'')"
    by (simp_all add: malformed_world_def plain_world_def NUL_def)
  show ?thesis
    using example_state_2 a b c
      recv_failures_alike [OF example_state_2 t, of plain_world 100]
      recv_failures_alike [OF example_state_2 t, of closed_world 100]
      recv_failures_alike [OF example_state_2 t, of malformed_world 100 "''abc''"]
    by (simp add: timeout_100)
qed

text \<open>A timeout, a closed connection and a frame without separator on handle 2 of the
  example state: the return value, the buffers and the state are the same.\<close>

theorem recv_timeout_not_distinct:
  "fst (zmq_recv_message plain_world 2 100 example_state) = - 1
   \<and> fst (zmq_recv_message closed_world 2 100 example_state) = - 1
   \<and> fst (zmq_recv_message malformed_world 2 100 example_state) = - 1
   \<and> fst (snd (zmq_recv_message plain_world 2 100 example_state)) = None
   \<and> fst (snd (zmq_recv_message closed_world 2 100 example_state)) = None
   \<and> fst (snd (zmq_recv_message malformed_world 2 100 example_state)) = None
   \<and> fst (snd (snd (zmq_recv_message plain_world 2 100 example_state))) = example_state
   \<and> fst (snd (snd (zmq_recv_message closed_world 2 100 example_state))) = example_state
   \<and> fst (snd (snd (zmq_recv_message malformed_world 2 100 example_state))) = example_state"
  by (simp add: zmq_recv_message_def example_state_2 plain_world_def closed_world_def
      malformed_world_def parse_data_def NUL_def)

text \<open>
  Claim C9. On a registered handle whose socket is not of type \<open>SUB\<close>, \<open>zmq_recv_message\<close>
  returns \<open>-1\<close> at once: it makes no call on the socket (no \<open>select\<close>, no \<open>recv\<close>) and sets
  the last-error text. \<open>zmq_send_message\<close> has no such test: on every registered handle
  with a valid socket, of whatever type, it returns 0 after accepting on that socket and
  sending to its clients.
\<close>

theorem recv_rejects_publisher:
  assumes "g_sockets s handle = Some sock"
  shows "(type sock \<noteq> ''SUB'' \<longrightarrow>
            zmq_recv_message w handle timeout_ms s =
              (- 1, None, s\<lparr>g_last_error := ''Not a subscriber socket''\<rparr>, []))
       \<and> (socket sock = Some l \<longrightarrow>
            fst (zmq_send_message w handle topic message s) = 0
          \<and> snd (snd (zmq_send_message w handle topic message s)) =
              (let peers = clients sock @ os_pending w l;
                   full = fullMsg (WideToUtf8 topic) (WideToUtf8 message)
               in accept_events l (os_pending w l)
                  @ map (\<lambda>c. EvSend c full) peers
                  @ map EvClose (filter (send_failed w full) peers)))"
proof (intro conjI impI)
  assume "type sock \<noteq> ''SUB''"
  with assms show "zmq_recv_message w handle timeout_ms s =
              (- 1, None, s\<lparr>g_last_error := ''Not a subscriber socket''\<rparr>, [])"
    by (simp add: zmq_recv_message_def SetLastError_def)
next
  assume l: "socket sock = Some l"
  show "fst (zmq_send_message w handle topic message s) = 0"
    by (simp add: zmq_send_message_registered [OF assms l] Let_def)
  show "snd (snd (zmq_send_message w handle topic message s)) =
              (let peers = clients sock @ os_pending w l;
                   full = fullMsg (WideToUtf8 topic) (WideToUtf8 message)
               in accept_events l (os_pending w l)
                  @ map (\<lambda>c. EvSend c full) peers
                  @ map EvClose (filter (send_failed w full) peers))"
    by (simp add: zmq_send_message_registered [OF assms l] Let_def)
qed

theorem recv_rejects_publisher_witness:
  "g_sockets example_state 1 =
     Some \<lparr>socket = Some 100, type = ''PUB'', address = ''tcp://*:5559'',
           is_bound = True, clients = [201, 202, 203]\<rparr>
   \<and> zmq_recv_message closed_world 1 1000 example_state
        = (- 1, None, example_state\<lparr>g_last_error := ''Not a subscriber socket''\<rparr>, [])
   \<and> g_sockets example_state 2 =
     Some \<lparr>socket = Some 101, type = ''SUB'', address = ''tcp://127.0.0.1:5559'',
           is_bound = False, clients = []\<rparr>
   \<and> fst (zmq_send_message sub_pending_world 2 ''t'' ''m'' example_state) = 0
   \<and> snd (snd (zmq_send_message sub_pending_world 2 ''t'' ''m'' example_state))
        = [EvAccept (Some 101) (Some 300), EvNonBlocking 300, EvAccept (Some 101) None,
           EvSend 300 [CHR ''t'', NUL, CHR ''m'']]"
proof -
  have p: "os_pending sub_pending_world 101 = [300]"
    by (simp add: sub_pending_world_def plain_world_def)
  have f: "fullMsg (WideToUtf8 ''t'') (WideToUtf8 ''m'') = [CHR ''t'', NUL, CHR ''m'']"
    by (simp add: fullMsg_def WideToUtf8_def c_str_def NUL_def)
  have nf: "\<not> send_failed sub_pending_world [CHR ''t'', NUL, CHR ''m''] 300"
    by (simp add: send_failed_def sub_pending_world_def plain_world_def)
  show ?thesis
    using example_state_1 example_state_2
      recv_rejects_publisher [OF example_state_1, of closed_world 1000 100 "''t''" "''m''"]
      recv_rejects_publisher [OF example_state_2, of sub_pending_world 1000 101 "''t''" "''m''"]
    by (simp add: p f nf accept_events_def Let_def)
qed


subsection \<open>Handles\<close>

lemma SetLastError_next [simp]: "g_next_handle (SetLastError e s) = g_next_handle s"
  by (simp add: SetLastError_def)

lemma ParseAddress_next: "ParseAddress a s = (r, s') \<Longrightarrow> g_next_handle s' = g_next_handle s"
  by (auto simp: ParseAddress_def Let_def split: if_splits option.splits)

lemma zmq_init_next: "zmq_init w s = (r, s') \<Longrightarrow> g_next_handle s' = g_next_handle s"
  by (auto simp: zmq_init_def Let_def split: if_splits)

lemma init_if_needed_next:
  "init_if_needed w s = (ok, s') \<Longrightarrow> g_next_handle s' = g_next_handle s"
  by (auto simp: init_if_needed_def split: if_splits prod.splits dest: zmq_init_next)

lemma new_handle_Some:
  "new_handle z s = Some (r, s') \<longleftrightarrow>
     (g_next_handle s \<noteq> INT_MAX \<and> r = g_next_handle s
      \<and> s' = s\<lparr>g_next_handle := g_next_handle s + 1, g_sockets := (g_sockets s)(g_next_handle s \<mapsto> z)\<rparr>)"
  by (auto simp: new_handle_def Let_def)

text \<open>A creation either returns \<open>-1\<close> and leaves the counter, or returns the counter and
  increments it.\<close>

lemma zmq_create_publisher_counter:
  assumes "zmq_create_publisher w a s = Some (r, s')"
  shows "(r = - 1 \<and> g_next_handle s' = g_next_handle s)
       \<or> (r = g_next_handle s \<and> g_next_handle s' = g_next_handle s + 1)"
proof (cases "init_if_needed w s")
  case (Pair ok s1)
  note n1 = init_if_needed_next [OF Pair]
  show ?thesis
  proof (cases ok)
    case False
    with assms Pair n1 show ?thesis by (simp add: zmq_create_publisher_def)
  next
    case True
    obtain p s2 where p: "ParseAddress (WideToUtf8 a) s1 = (p, s2)" by force
    note n2 = ParseAddress_next [OF p]
    from assms Pair True p n1 n2 show ?thesis
      by (auto simp: zmq_create_publisher_def Let_def new_handle_Some
          split: option.splits if_splits)
  qed
qed

lemma zmq_create_subscriber_counter:
  assumes "zmq_create_subscriber w a s = Some (r, s')"
  shows "(r = - 1 \<and> g_next_handle s' = g_next_handle s)
       \<or> (r = g_next_handle s \<and> g_next_handle s' = g_next_handle s + 1)"
proof (cases "init_if_needed w s")
  case (Pair ok s1)
  note n1 = init_if_needed_next [OF Pair]
  show ?thesis
  proof (cases ok)
    case False
    with assms Pair n1 show ?thesis by (simp add: zmq_create_subscriber_def)
  next
    case True
    obtain p s2 where p: "ParseAddress (WideToUtf8 a) s1 = (p, s2)" by force
    note n2 = ParseAddress_next [OF p]
    from assms Pair True p n1 n2 show ?thesis
      by (auto simp: zmq_create_subscriber_def Let_def new_handle_Some
          split: option.splits if_splits)
  qed
qed

lemma zmq_create_publisher_defined:
  "g_next_handle s \<noteq> INT_MAX \<Longrightarrow> zmq_create_publisher w a s \<noteq> None"
proof (cases "init_if_needed w s")
  case (Pair ok s1)
  assume ne: "g_next_handle s \<noteq> INT_MAX"
  note n1 = init_if_needed_next [OF Pair]
  obtain p s2 where p: "ParseAddress (WideToUtf8 a) s1 = (p, s2)" by force
  note n2 = ParseAddress_next [OF p]
  from ne Pair p n1 n2 show ?thesis
    by (auto simp: zmq_create_publisher_def Let_def new_handle_def
        split: option.splits if_splits bool.splits)
qed

lemma zmq_create_subscriber_defined:
  "g_next_handle s \<noteq> INT_MAX \<Longrightarrow> zmq_create_subscriber w a s \<noteq> None"
proof (cases "init_if_needed w s")
  case (Pair ok s1)
  assume ne: "g_next_handle s \<noteq> INT_MAX"
  note n1 = init_if_needed_next [OF Pair]
  obtain p s2 where p: "ParseAddress (WideToUtf8 a) s1 = (p, s2)" by force
  note n2 = ParseAddress_next [OF p]
  from ne Pair p n1 n2 show ?thesis
    by (auto simp: zmq_create_subscriber_def Let_def new_handle_def
        split: option.splits if_splits bool.splits)
qed

lemma zmq_send_message_next:
  "zmq_send_message w h t m s = (r, s', evs) \<Longrightarrow> g_next_handle s' = g_next_handle s"
  by (auto simp: zmq_send_message_def Let_def split: option.splits prod.splits)

lemma zmq_recv_message_next:
  "zmq_recv_message w h t s = (r, out, s', evs) \<Longrightarrow> g_next_handle s' = g_next_handle s"
  by (auto simp: zmq_recv_message_def Let_def split: option.splits if_splits recv_result.splits)

lemma zmq_close_next: "zmq_close h s = (r, s') \<Longrightarrow> g_next_handle s' = g_next_handle s"
  by (auto simp: zmq_close_def split: option.splits)

lemma zmq_term_next: "g_next_handle (zmq_term s) = g_next_handle s"
  by (simp add: zmq_term_def)

lemma api_step_counter:
  assumes "api_step w c s = Some (r, s')" and "1 \<le> g_next_handle s"
  shows "if is_create c \<and> r \<noteq> - 1
         then r = g_next_handle s \<and> g_next_handle s' = g_next_handle s + 1
         else g_next_handle s' = g_next_handle s"
proof (cases c)
  case Call_init
  with assms show ?thesis by (auto dest: zmq_init_next)
next
  case Call_term
  with assms show ?thesis by (auto simp: zmq_term_next)
next
  case (Call_create_publisher a)
  with assms zmq_create_publisher_counter [of w a s r s'] show ?thesis by auto
next
  case (Call_create_subscriber a)
  with assms zmq_create_subscriber_counter [of w a s r s'] show ?thesis by auto
next
  case (Call_send_message h t m)
  with assms show ?thesis by (auto split: prod.splits dest: zmq_send_message_next)
next
  case (Call_subscribe h t)
  with assms show ?thesis by (auto simp: zmq_subscribe_def)
next
  case (Call_recv_message h t)
  with assms show ?thesis by (auto split: prod.splits dest: zmq_recv_message_next)
next
  case (Call_close h)
  with assms show ?thesis by (auto dest: zmq_close_next)
qed

lemma api_step_defined: "g_next_handle s \<noteq> INT_MAX \<Longrightarrow> api_step w c s \<noteq> None"
  by (cases c)
     (auto simp: zmq_create_publisher_defined zmq_create_subscriber_defined split: prod.splits)


text \<open>The handles created by a run are the values the counter passes through.\<close>

lemma created_Cons:
  "created ((c, r) # log) = (if is_create c \<and> r \<noteq> - 1 then r # created log else created log)"
  by (simp add: created_def)

lemma run_created:
  assumes "run cs s = Some (log, s')" and "1 \<le> g_next_handle s"
  shows "created log = [g_next_handle s .. g_next_handle s' - 1]
         \<and> g_next_handle s \<le> g_next_handle s'"
  using assms
proof (induction cs arbitrary: s log)
  case Nil
  then show ?case by (simp add: created_def)
next
  case (Cons wc cs)
  obtain w c where wc: "wc = (w, c)" by force
  from Cons.prems(1) wc obtain r s1 log1 where
    step: "api_step w c s = Some (r, s1)" and rest: "run cs s1 = Some (log1, s')"
    and log: "log = (c, r) # log1"
    by (auto split: option.splits)
  note cnt = api_step_counter [OF step Cons.prems(2)]
  from cnt Cons.prems(2) have pos: "1 \<le> g_next_handle s1" by (auto split: if_splits)
  note ih = Cons.IH [OF rest pos]
  show ?case
  proof (cases "is_create c \<and> r \<noteq> - 1")
    case True
    with cnt have r: "r = g_next_handle s" and n: "g_next_handle s1 = g_next_handle s + 1"
      by auto
    from ih n have le: "g_next_handle s \<le> g_next_handle s' - 1" by simp
    have "[g_next_handle s .. g_next_handle s' - 1]
            = g_next_handle s # [g_next_handle s + 1 .. g_next_handle s' - 1]"
      using le by (rule upto_rec1)
    with ih n r True log show ?thesis by (simp add: created_Cons)
  next
    case False
    with cnt have "g_next_handle s1 = g_next_handle s" by auto
    with ih False log show ?thesis by (simp add: created_Cons)
  qed
qed

lemma api_step_counter_le:
  assumes "api_step w c s = Some (r, s')" and "1 \<le> g_next_handle s"
  shows "g_next_handle s' \<le> g_next_handle s + 1"
  using api_step_counter [OF assms] by (auto split: if_splits)

lemma api_step_counter_ge:
  assumes "api_step w c s = Some (r, s')" and "1 \<le> g_next_handle s"
  shows "g_next_handle s \<le> g_next_handle s'"
  using api_step_counter [OF assms] by (auto split: if_splits)

text \<open>A run is defined as long as the counter stays below \<open>INT_MAX\<close>.\<close>

lemma run_defined:
  assumes "1 \<le> g_next_handle s" and "g_next_handle s + int (length cs) \<le> INT_MAX"
  shows "run cs s \<noteq> None"
  using assms
proof (induction cs arbitrary: s)
  case Nil
  then show ?case by simp
next
  case (Cons wc cs)
  obtain w c where wc: "wc = (w, c)" by force
  from Cons.prems have "g_next_handle s \<noteq> INT_MAX" by simp
  then obtain r s1 where step: "api_step w c s = Some (r, s1)"
    using api_step_defined [of s w c] by auto
  from api_step_counter_le [OF step Cons.prems(1)] api_step_counter_ge [OF step Cons.prems(1)]
    Cons.prems
  have "1 \<le> g_next_handle s1" "g_next_handle s1 + int (length cs) \<le> INT_MAX" by simp_all
  then have "run cs s1 \<noteq> None" by (rule Cons.IH)
  with step wc show ?case by auto
qed

text \<open>
  Claim C5. From the state at load time, every sequence of calls of the exported
  functions (initialisation, termination, creations, sends, receives, closes, in any
  order and with any answers of the operating system) that does not overflow the handle
  counter hands out the handles 1, 2, 3, ... in this order to its successful creations:
  the handles are positive, strictly increasing and pairwise distinct, also across
  \<open>zmq_term\<close> and a new initialisation, which do not touch the counter. No sequence of
  fewer than \<open>INT_MAX\<close> calls overflows the counter.
\<close>

theorem handles_never_reused:
  "(int (length calls) < INT_MAX \<longrightarrow> run calls initial_state \<noteq> None)
   \<and> (\<forall>log s'. run calls initial_state = Some (log, s') \<longrightarrow>
          created log = [1 .. int (length (created log))]
        \<and> distinct (created log)
        \<and> sorted_wrt (<) (created log)
        \<and> (\<forall>h \<in> set (created log). 1 \<le> h))"
proof (intro conjI impI allI)
  assume "int (length calls) < INT_MAX"
  then show "run calls initial_state \<noteq> None"
    by (intro run_defined) (simp_all add: initial_state_def)
next
  fix log s'
  assume r: "run calls initial_state = Some (log, s')"
  have one: "1 \<le> g_next_handle initial_state" by (simp add: initial_state_def)
  from run_created [OF r one]
  have c: "created log = [1 .. g_next_handle s' - 1]" and le: "1 \<le> g_next_handle s'"
    by (simp_all add: initial_state_def)
  from c le have len: "int (length (created log)) = g_next_handle s' - 1"
    by simp
  show "created log = [1 .. int (length (created log))]"
    using c len by simp
  show "distinct (created log)" using c by simp
  show "sorted_wrt (<) (created log)" using c by (simp add: sorted_wrt_upto)
  show "\<forall>h \<in> set (created log). 1 \<le> h" using c by simp
qed


text \<open>The definitions that evaluate a call in \<open>plain_world\<close>.\<close>

lemmas eval_defs =
  zmq_create_publisher_def zmq_create_subscriber_def init_if_needed_def zmq_init_def
  zmq_term_def zmq_close_def zmq_send_message_def AcceptConnections_def
  plain_world_def initial_state_def WideToUtf8_def c_str_def NUL_def ParseAddress_def
  substr_def substr_from_def stoi_def isspace_def isdigit_def decimal_def digit_val_def
  INT_MAX_def INT_MIN_def StringToAddr_def INADDR_NONE_def htons_def SOCKET_ERROR_def
  new_handle_def SetLastError_def fullMsg_def

lemma example_calls_log:
  "map_option fst (run example_calls initial_state) =
     Some [(Call_init, 0),
           (Call_create_publisher ''tcp://*:5558'', 1),
           (Call_create_publisher ''invalid://address'', - 1),
           (Call_send_message 1 ''test.topic'' ''test message'', 0),
           (Call_create_subscriber ''tcp://127.0.0.1:5558'', 2),
           (Call_close 1, 0),
           (Call_term, 0),
           (Call_create_publisher ''tcp://*:5560'', 3)]"
  by (simp add: example_calls_def eval_defs)

theorem handles_never_reused_witness:
  "int (length example_calls) < INT_MAX
   \<and> (\<exists>log s'. run example_calls initial_state = Some (log, s')
        \<and> created log = [1, 2, 3]
        \<and> created log = [1 .. int (length (created log))]
        \<and> distinct (created log))"
proof -
  have a: "int (length example_calls) < INT_MAX"
    by (simp add: example_calls_def INT_MAX_def)
  with handles_never_reused [of example_calls]
  obtain log s' where r: "run example_calls initial_state = Some (log, s')" by auto
  with example_calls_log have "created log = [1, 2, 3]"
    by (simp add: created_def)
  with a r handles_never_reused [of example_calls] show ?thesis by auto
qed


end
